theory Spec2Isabelle
  imports Main "HOL-Library.Word"
begin

unbundle bit_operations_syntax

section \<open>The /execute handler of the C++ execution server\<close>

text \<open>
  The development embeds \<^verbatim>\<open>executeHandler\<close> (the handler registered for
  \<^verbatim>\<open>/execute\<close>) together with the two payload structs of \<^verbatim>\<open>models.go\<close>.
  The handler is a straight-line sequence of library calls with early returns and two
  \<^verbatim>\<open>defer\<close> statements. Its model is a function from the request and from the
  answers of the outside world (file system, container engine, clock) to the ordered
  list of library calls the handler makes, together with the way it ends (normal return
  or a panic passing through).
\<close>

subsection \<open>Payloads (models.go)\<close>

record CodePayload =
  Code :: string
  Stdin :: string

record ResultPayload =
  Result :: string

subsection \<open>The request and its JSON body\<close>

type_synonym error = string

text \<open>
  What \<^verbatim>\<open>json.NewDecoder(r.Body).Decode(&payload)\<close> makes of a body. Either the
  decoder returns an error (\<open>Rejected\<close>), or it returns the payload it read from the first
  JSON value of the body, an object of which only the members \<^verbatim>\<open>code\<close> and
  \<^verbatim>\<open>stdin\<close> matter (\<open>Object\<close>, with the two strings as the decoder delivers them). A
  member that is absent (or \<^verbatim>\<open>null\<close>) leaves the Go field at its zero value, the
  empty string. \<^verbatim>\<open>Decode\<close> does not read past the first value: a body that has
  anything after it is an \<open>Object\<close> here, not a \<open>Rejected\<close> one.
\<close>

datatype body = Rejected error | Object "string option" "string option"

record request =
  Method :: string
  Body :: body

fun field :: "string option \<Rightarrow> string" where
  "field None = ''''"
| "field (Some s) = s"

fun Decode :: "body \<Rightarrow> error + CodePayload" where
  "Decode (Rejected err) = Inl err"
| "Decode (Object c s) = Inr \<lparr>Code = field c, Stdin = field s\<rparr>"

subsection \<open>Library calls and the outside world\<close>

text \<open>A Go call either returns its results or panics.\<close>

datatype 'a call = Returns 'a | Panics

text \<open>\<^verbatim>\<open>filepath.Join(dir, name)\<close>, kept as the pair of its arguments.\<close>

datatype fpath = Join string string

text \<open>
  \<^verbatim>\<open>exec.Cmd\<close>: the program, the arguments after the program name, and the
  reader attached to standard input (\<^verbatim>\<open>nil\<close> is \<open>None\<close>). Standard output and
  standard error are always the handler's two buffers.
\<close>

record cmd =
  Path :: string
  Args :: "string list"
  cmdStdin :: "string option"

text \<open>
  The error of \<^verbatim>\<open>runCmd.Run()\<close>: the process could not be started
  (\<^verbatim>\<open>*exec.Error\<close> and the like) or it ran and exited unsuccessfully
  (\<^verbatim>\<open>*exec.ExitError\<close>).
\<close>

datatype run_error = StartError error | ExitError int

record run_result =
  runErr :: "run_error option"
  out :: string
  stderr :: string

datatype ctx_error = DeadlineExceeded | Canceled

record env =
  mkdirTemp :: "string \<Rightarrow> string \<Rightarrow> (error + string) call"
  writeFile :: "fpath \<Rightarrow> string \<Rightarrow> 32 word \<Rightarrow> error option call"
  run :: "cmd \<Rightarrow> run_result call"
  ctxErr :: "ctx_error option"

text \<open>
  \<open>ctxErr\<close> is the value of \<^verbatim>\<open>ctx.Err()\<close> at the moment the handler reads it,
  after \<^verbatim>\<open>Run\<close> has returned.
\<close>

subsection \<open>The handler's actions\<close>

text \<open>One constructor for each \<^verbatim>\<open>log.Printf\<close>/\<^verbatim>\<open>log.Println\<close> of the handler, with its arguments.\<close>

datatype logmsg =
    LogInvalidJSON error
  | LogMkdirFailed error
  | LogDirCreated string
  | LogWriteFailed error
  | LogDockerRun
  | LogTimedOut
  | LogExecFailed run_error string
  | LogExecOk string

datatype event =
    Log logmsg
  | HttpError string nat
  | MkdirTemp string string
  | RemoveAll string
  | WriteFile fpath string "32 word"
  | WithTimeout int
  | Cancel
  | Run cmd
  | SetHeader string string
  | SetEscapeHTML bool
  | Encode ResultPayload

datatype completion = Returned | Panicked

type_synonym outcome = "event list \<times> completion"

text \<open>Actions done before the rest of the function runs.\<close>

definition emit :: "event list \<Rightarrow> outcome \<Rightarrow> outcome" where
  "emit es r = (es @ fst r, snd r)"

text \<open>
  \<^verbatim>\<open>defer f(x)\<close>: the call runs when the rest of the function is over, whether it
  returned or panicked.
\<close>

definition deferred :: "event \<Rightarrow> outcome \<Rightarrow> outcome" where
  "deferred d r = (fst r @ [d], snd r)"

subsection \<open>Constants\<close>

definition StatusOK :: nat where "StatusOK = 200"
definition StatusBadRequest :: nat where "StatusBadRequest = 400"
definition StatusMethodNotAllowed :: nat where "StatusMethodNotAllowed = 405"
definition StatusInternalServerError :: nat where "StatusInternalServerError = 500"
definition StatusGatewayTimeout :: nat where "StatusGatewayTimeout = 504"

text \<open>\<^verbatim>\<open>time.Second\<close>, in nanoseconds.\<close>

definition Second :: int where "Second = 1000000000"

text \<open>The octal literal \<^verbatim>\<open>0666\<close>.\<close>

definition mode_0666 :: "32 word" where
  "mode_0666 = 6 * 64 + 6 * 8 + 6"

definition compileAndRunScript :: string where
  "compileAndRunScript =
     ''g++ -Wall /usr/src/app/main.cpp -o /usr/src/app/main.out && /usr/src/app/main.out''"

subsection \<open>executeHandler\<close>

text \<open>The command built by \<^verbatim>\<open>exec.CommandContext\<close>, with the conditional assignment of its standard input.\<close>

definition runCmd :: "string \<Rightarrow> CodePayload \<Rightarrow> cmd" where
  "runCmd dir payload =
     \<lparr>Path = ''docker'',
      Args = [''run'', ''--rm'', ''-i'', ''--net=none'',
              ''-v'', dir @ '':/usr/src/app'',
              ''gcc:latest'',
              ''sh'', ''-c'', compileAndRunScript],
      cmdStdin = (if Stdin payload \<noteq> '''' then Some (Stdin payload) else None)\<rparr>"

text \<open>After \<^verbatim>\<open>Run\<close> has returned: the three-way classification.\<close>

definition classify :: "env \<Rightarrow> run_result \<Rightarrow> outcome" where
  "classify e r =
     (if ctxErr e = Some DeadlineExceeded then
        ([Log LogTimedOut, HttpError ''Execution timed out'' StatusGatewayTimeout], Returned)
      else case runErr r of
        Some err \<Rightarrow>
          ([Log (LogExecFailed err (stderr r)),
            HttpError (''Execution failed: '' @ stderr r) StatusInternalServerError], Returned)
      | None \<Rightarrow>
          ([Log (LogExecOk (out r)),
            SetHeader ''Content-Type'' ''application/json'',
            SetEscapeHTML False,
            Encode \<lparr>Result = out r\<rparr>], Returned))"

text \<open>The part of the handler below \<^verbatim>\<open>defer cancel()\<close>.\<close>

definition runSandbox :: "env \<Rightarrow> string \<Rightarrow> CodePayload \<Rightarrow> outcome" where
  "runSandbox e dir payload =
     emit [Log LogDockerRun, Run (runCmd dir payload)]
       (case run e (runCmd dir payload) of
          Panics \<Rightarrow> ([], Panicked)
        | Returns r \<Rightarrow> classify e r)"

text \<open>The part of the handler below \<^verbatim>\<open>defer os.RemoveAll(dir)\<close>.\<close>

definition withWorkspace :: "env \<Rightarrow> string \<Rightarrow> CodePayload \<Rightarrow> outcome" where
  "withWorkspace e dir payload =
     emit [Log (LogDirCreated dir),
           WriteFile (Join dir ''main.cpp'') (Code payload) mode_0666]
       (case writeFile e (Join dir ''main.cpp'') (Code payload) mode_0666 of
          Panics \<Rightarrow> ([], Panicked)
        | Returns (Some err) \<Rightarrow>
            ([Log (LogWriteFailed err),
              HttpError ''Failed to write to temp file'' StatusInternalServerError], Returned)
        | Returns None \<Rightarrow>
            emit [WithTimeout (10 * Second)]
              (deferred Cancel (runSandbox e dir payload)))"

definition executeHandler :: "request \<Rightarrow> env \<Rightarrow> outcome" where
  "executeHandler r e =
     (if Method r \<noteq> ''POST'' then
        ([HttpError ''POST method only'' StatusMethodNotAllowed], Returned)
      else case Decode (Body r) of
        Inl err \<Rightarrow>
          ([Log (LogInvalidJSON err),
            HttpError ''Bad Request: Invalid JSON'' StatusBadRequest], Returned)
      | Inr payload \<Rightarrow>
          emit [MkdirTemp '''' ''cpp-execution-'']
            (case mkdirTemp e '''' ''cpp-execution-'' of
               Panics \<Rightarrow> ([], Panicked)
             | Returns (Inl err) \<Rightarrow>
                 ([Log (LogMkdirFailed err),
                   HttpError ''Failed to create temp dir'' StatusInternalServerError], Returned)
             | Returns (Inr dir) \<Rightarrow>
                 deferred (RemoveAll dir) (withWorkspace e dir payload)))"

subsection \<open>What the caller receives\<close>

text \<open>
  \<^verbatim>\<open>http.Error(w, msg, code)\<close> sends a plain-text reply with the given status.
  \<^verbatim>\<open>enc.Encode(v)\<close> on a writer whose status was never set sends the JSON value
  with status 200; the encoder escapes HTML characters unless \<^verbatim>\<open>SetEscapeHTML(false)\<close>
  was called on it before (a new encoder escapes).
\<close>

datatype reply = TextReply nat string | JsonReply nat bool ResultPayload

fun replies :: "bool \<Rightarrow> event list \<Rightarrow> reply list" where
  "replies esc [] = []"
| "replies esc (HttpError msg code # es) = TextReply code msg # replies esc es"
| "replies esc (SetEscapeHTML b # es) = replies b es"
| "replies esc (Encode v # es) = JsonReply StatusOK esc v # replies esc es"
| "replies esc (ev # es) = replies esc es"

definition response :: "outcome \<Rightarrow> reply list" where
  "response r = replies True (fst r)"

subsection \<open>The bytes of a reply\<close>











subsection \<open>Selecting actions of one kind\<close>

fun isMkdirTemp :: "event \<Rightarrow> bool" where
  "isMkdirTemp (MkdirTemp d pat) = True"
| "isMkdirTemp ev = False"

fun isRemoveAll :: "event \<Rightarrow> bool" where
  "isRemoveAll (RemoveAll d) = True"
| "isRemoveAll ev = False"

fun isWriteFile :: "event \<Rightarrow> bool" where
  "isWriteFile (WriteFile f d m) = True"
| "isWriteFile ev = False"

fun isRun :: "event \<Rightarrow> bool" where
  "isRun (Run c) = True"
| "isRun ev = False"

subsection \<open>Paths through the handler\<close>

text \<open>
  The request was accepted, the workspace \<open>dir\<close> was created and the source file was
  written: the handler goes on to build and start the sandbox command.
\<close>

definition prepared :: "request \<Rightarrow> env \<Rightarrow> CodePayload \<Rightarrow> string \<Rightarrow> bool" where
  "prepared req e p dir \<longleftrightarrow>
     Method req = ''POST'' \<and>
     Decode (Body req) = Inr p \<and>
     mkdirTemp e '''' ''cpp-execution-'' = Returns (Inr dir) \<and>
     writeFile e (Join dir ''main.cpp'') (Code p) mode_0666 = Returns None"

text \<open>Moreover \<^verbatim>\<open>Run\<close> returned, with its error and the two buffers in \<open>r\<close>.\<close>

definition executed :: "request \<Rightarrow> env \<Rightarrow> CodePayload \<Rightarrow> string \<Rightarrow> run_result \<Rightarrow> bool" where
  "executed req e p dir r \<longleftrightarrow> prepared req e p dir \<and> run e (runCmd dir p) = Returns r"

subsection \<open>The specification's reading of file permissions\<close>

text \<open>
  A file mode is restrictive when it grants nothing to the group and to others
  (no bit of octal \<^verbatim>\<open>077\<close>, which is 63).
\<close>

definition restrictive_perm :: "32 word \<Rightarrow> bool" where
  "restrictive_perm m \<longleftrightarrow> m AND 63 = 0"

subsection \<open>Sample requests and worlds\<close>

text \<open>A world whose answers do not depend on the arguments of the calls.\<close>

definition world ::
  "(error + string) call \<Rightarrow> error option call \<Rightarrow> run_result call \<Rightarrow> ctx_error option \<Rightarrow> env" where
  "world m w r c =
     \<lparr>mkdirTemp = (\<lambda>d pat. m), writeFile = (\<lambda>f d md. w), run = (\<lambda>cm. r), ctxErr = c\<rparr>"

definition echo_src :: string where
  "echo_src = ''#include <iostream>''"

definition req_echo :: request where
  "req_echo = \<lparr>Method = ''POST'', Body = Object (Some echo_src) (Some ''5'')\<rparr>"

definition p_echo :: CodePayload where
  "p_echo = \<lparr>Code = echo_src, Stdin = ''5''\<rparr>"

definition req_bad :: request where
  "req_bad = \<lparr>Method = ''POST'', Body = Rejected ''unexpected EOF''\<rparr>"

definition ws1 :: string where
  "ws1 = ''/tmp/cpp-execution-1''"

definition r_ok :: run_result where
  "r_ok = \<lparr>runErr = None, out = ''5'', stderr = ''''\<rparr>"

definition r_killed :: run_result where
  "r_killed = \<lparr>runErr = Some (ExitError (- 1)), out = ''partial'', stderr = ''warning''\<rparr>"

definition r_compile_error :: run_result where
  "r_compile_error =
     \<lparr>runErr = Some (ExitError 1), out = '''', stderr = ''main.cpp:1:1: error''\<rparr>"

definition r_no_docker :: run_result where
  "r_no_docker =
     \<lparr>runErr = Some (StartError ''executable file not found in $PATH''),
      out = '''', stderr = ''''\<rparr>"

definition r_silent_exit :: run_result where
  "r_silent_exit = \<lparr>runErr = Some (ExitError 1), out = '''', stderr = ''''\<rparr>"

definition r_no_daemon :: run_result where
  "r_no_daemon =
     \<lparr>runErr = Some (ExitError 125), out = '''',
      stderr = ''docker: Cannot connect to the Docker daemon''\<rparr>"

definition req_get_bad :: request where
  "req_get_bad = \<lparr>Method = ''GET'', Body = Rejected ''unexpected EOF''\<rparr>"




section \<open>Properties of the handler\<close>

subsection \<open>Shape of the trace\<close>

lemma classify_no_effects:
  "filter isMkdirTemp (fst (classify e r)) = []"
  "filter isRemoveAll (fst (classify e r)) = []"
  "filter isWriteFile (fst (classify e r)) = []"
  "filter isRun (fst (classify e r)) = []"
  by (simp_all add: classify_def split: option.splits)

lemma classify_returns: "snd (classify e r) = Returned"
  by (simp add: classify_def split: option.splits)

lemma runSandbox_effects:
  "filter isMkdirTemp (fst (runSandbox e dir p)) = []"
  "filter isRemoveAll (fst (runSandbox e dir p)) = []"
  "filter isWriteFile (fst (runSandbox e dir p)) = []"
  "filter isRun (fst (runSandbox e dir p)) = [Run (runCmd dir p)]"
  by (simp_all add: runSandbox_def emit_def classify_no_effects split: call.splits)

lemma withWorkspace_effects:
  "filter isMkdirTemp (fst (withWorkspace e dir p)) = []"
  "filter isRemoveAll (fst (withWorkspace e dir p)) = []"
  "filter isWriteFile (fst (withWorkspace e dir p)) =
     [WriteFile (Join dir ''main.cpp'') (Code p) mode_0666]"
  by (simp_all add: withWorkspace_def emit_def deferred_def runSandbox_effects
      split: call.splits option.splits)

lemma withWorkspace_runs:
  "filter isRun (fst (withWorkspace e dir p)) =
     (if writeFile e (Join dir ''main.cpp'') (Code p) mode_0666 = Returns None
      then [Run (runCmd dir p)] else [])"
  by (simp add: withWorkspace_def emit_def deferred_def runSandbox_effects
      split: call.splits option.splits)

lemma workspace_trace:
  assumes "Method req = ''POST''" and "Decode (Body req) = Inr p"
    and "mkdirTemp e '''' ''cpp-execution-'' = Returns (Inr dir)"
  shows "executeHandler req e =
     (MkdirTemp '''' ''cpp-execution-'' # fst (withWorkspace e dir p) @ [RemoveAll dir],
      snd (withWorkspace e dir p))"
  using assms by (simp add: executeHandler_def emit_def deferred_def)

lemma no_workspace_trace:
  assumes "Method req = ''POST''" and "Decode (Body req) = Inr p"
    and "mkdirTemp e '''' ''cpp-execution-'' = Returns (Inl err)"
  shows "executeHandler req e =
     ([MkdirTemp '''' ''cpp-execution-'', Log (LogMkdirFailed err),
       HttpError ''Failed to create temp dir'' StatusInternalServerError], Returned)"
  using assms by (simp add: executeHandler_def emit_def)

lemma prepared_trace:
  assumes "prepared req e p dir"
  shows "executeHandler req e =
     ([MkdirTemp '''' ''cpp-execution-'',
       Log (LogDirCreated dir),
       WriteFile (Join dir ''main.cpp'') (Code p) mode_0666,
       WithTimeout (10 * Second)] @ fst (runSandbox e dir p) @ [Cancel, RemoveAll dir],
      snd (runSandbox e dir p))"
  using assms
  by (simp add: prepared_def executeHandler_def withWorkspace_def emit_def deferred_def)

lemma executed_trace:
  assumes "executed req e p dir r"
  shows "executeHandler req e =
     ([MkdirTemp '''' ''cpp-execution-'',
       Log (LogDirCreated dir),
       WriteFile (Join dir ''main.cpp'') (Code p) mode_0666,
       WithTimeout (10 * Second),
       Log LogDockerRun,
       Run (runCmd dir p)] @ fst (classify e r) @ [Cancel, RemoveAll dir], Returned)"
proof -
  from assms have prep: "prepared req e p dir" and ran: "run e (runCmd dir p) = Returns r"
    by (simp_all add: executed_def)
  from ran have "runSandbox e dir p =
      ([Log LogDockerRun, Run (runCmd dir p)] @ fst (classify e r), Returned)"
    by (simp add: runSandbox_def emit_def classify_returns)
  with prepared_trace [OF prep] show ?thesis by simp
qed


lemma classify_timeout:
  "ctxErr e = Some DeadlineExceeded \<Longrightarrow>
   classify e r =
     ([Log LogTimedOut, HttpError ''Execution timed out'' StatusGatewayTimeout], Returned)"
  by (simp add: classify_def)

lemma classify_failure:
  "ctxErr e \<noteq> Some DeadlineExceeded \<Longrightarrow> runErr r = Some err \<Longrightarrow>
   classify e r =
     ([Log (LogExecFailed err (stderr r)),
       HttpError (''Execution failed: '' @ stderr r) StatusInternalServerError], Returned)"
  by (simp add: classify_def)


lemma run_event_origin:
  assumes "Run c \<in> set (fst (executeHandler req e))"
  shows "\<exists>p dir. Decode (Body req) = Inr p \<and> c = runCmd dir p"
proof -
  from assms have post: "Method req = ''POST''"
    by (auto simp: executeHandler_def split: if_splits)
  from assms post obtain p where dec: "Decode (Body req) = Inr p"
    by (cases "Decode (Body req)") (auto simp: executeHandler_def)
  from assms post dec obtain dir where mk: "mkdirTemp e '''' ''cpp-execution-'' = Returns (Inr dir)"
    by (auto simp: executeHandler_def emit_def split: call.splits sum.splits)
  have "Run c \<in> set (filter isRun (fst (executeHandler req e)))"
    using assms by simp
  then have "Run c \<in> set (filter isRun (fst (withWorkspace e dir p)))"
    by (simp add: workspace_trace [OF post dec mk])
  then have "c = runCmd dir p"
    by (simp add: withWorkspace_runs split: if_splits)
  with dec show ?thesis by blast
qed

subsection \<open>Classification of the outcome\<close>

text \<open>
  Claim C1. When the deadline of ten seconds (\<open>WithTimeout (10 * Second)\<close>) has expired by
  the time \<^verbatim>\<open>Run\<close> is back, the handler answers 504 with the fixed text
  \<^verbatim>\<open>Execution timed out\<close>. The whole sequence of actions is fixed and mentions neither
  the captured standard output nor the captured standard error nor the error of
  \<^verbatim>\<open>Run\<close>: the result \<open>r\<close> is arbitrary, so the timeout wins over an exit error
  and over a clean exit alike.
\<close>

theorem timeout_classified_first:
  assumes "executed req e p dir r" and "ctxErr e = Some DeadlineExceeded"
  shows "executeHandler req e =
      ([MkdirTemp '''' ''cpp-execution-'',
        Log (LogDirCreated dir),
        WriteFile (Join dir ''main.cpp'') (Code p) mode_0666,
        WithTimeout (10 * Second),
        Log LogDockerRun,
        Run (runCmd dir p),
        Log LogTimedOut,
        HttpError ''Execution timed out'' StatusGatewayTimeout,
        Cancel,
        RemoveAll dir], Returned)
     \<and> response (executeHandler req e) = [TextReply 504 ''Execution timed out'']"
  using executed_trace [OF assms(1)] classify_timeout [OF assms(2)]
  by (simp add: response_def StatusGatewayTimeout_def)

theorem timeout_classified_first_witness:
  "executed req_echo (world (Returns (Inr ws1)) (Returns None) (Returns r_killed) (Some DeadlineExceeded))
     p_echo ws1 r_killed
   \<and> ctxErr (world (Returns (Inr ws1)) (Returns None) (Returns r_killed) (Some DeadlineExceeded))
       = Some DeadlineExceeded
   \<and> runErr r_killed = Some (ExitError (- 1)) \<and> out r_killed = ''partial''
   \<and> response (executeHandler req_echo
        (world (Returns (Inr ws1)) (Returns None) (Returns r_killed) (Some DeadlineExceeded)))
       = [TextReply 504 ''Execution timed out'']"
proof -
  let ?w = "world (Returns (Inr ws1)) (Returns None) (Returns r_killed) (Some DeadlineExceeded)"
  have h1: "executed req_echo ?w p_echo ws1 r_killed"
    by (simp add: executed_def prepared_def req_echo_def world_def p_echo_def)
  have h2: "ctxErr ?w = Some DeadlineExceeded"
    by (simp add: world_def)
  have h3: "runErr r_killed = Some (ExitError (- 1)) \<and> out r_killed = ''partial''"
    by (simp add: r_killed_def)
  from timeout_classified_first [OF h1 h2] h1 h2 h3 show ?thesis
    by (simp add: response_def StatusGatewayTimeout_def)
qed

text \<open>
  Claim C10. The process need not have been killed: when \<^verbatim>\<open>Run\<close> reports no
  error at all but the context has expired when the handler looks at it, the reply is the
  504 timeout reply; neither the success encoding of the output nor the failure reply is sent.
\<close>

theorem finished_after_deadline_is_timeout:
  assumes "executed req e p dir r" and "runErr r = None"
    and "ctxErr e = Some DeadlineExceeded"
  shows "response (executeHandler req e) = [TextReply StatusGatewayTimeout ''Execution timed out'']
     \<and> Encode \<lparr>Result = out r\<rparr> \<notin> set (fst (executeHandler req e))
     \<and> HttpError (''Execution failed: '' @ stderr r) StatusInternalServerError
         \<notin> set (fst (executeHandler req e))"
  using executed_trace [OF assms(1)] classify_timeout [OF assms(3)]
  by (simp add: response_def)

theorem finished_after_deadline_is_timeout_witness:
  "executed req_echo (world (Returns (Inr ws1)) (Returns None) (Returns r_ok) (Some DeadlineExceeded))
     p_echo ws1 r_ok
   \<and> runErr r_ok = None \<and> out r_ok = ''5''
   \<and> response (executeHandler req_echo
        (world (Returns (Inr ws1)) (Returns None) (Returns r_ok) (Some DeadlineExceeded)))
       = [TextReply 504 ''Execution timed out'']"
proof -
  let ?w = "world (Returns (Inr ws1)) (Returns None) (Returns r_ok) (Some DeadlineExceeded)"
  have h1: "executed req_echo ?w p_echo ws1 r_ok"
    by (simp add: executed_def prepared_def req_echo_def world_def p_echo_def)
  have h2: "runErr r_ok = None"
    by (simp add: r_ok_def)
  have h3: "ctxErr ?w = Some DeadlineExceeded"
    by (simp add: world_def)
  have h4: "out r_ok = ''5''"
    by (simp add: r_ok_def)
  from finished_after_deadline_is_timeout [OF h1 h2 h3] h1 h2 h4 show ?thesis
    by (simp add: StatusGatewayTimeout_def)
qed





text \<open>
  Claim C3 says that a failure to start the container engine is told apart from a failing
  exit and answered generically. The handler has a single test \<^verbatim>\<open>err != nil\<close> after
  \<^verbatim>\<open>Run\<close>: with the \<^verbatim>\<open>docker\<close> binary missing, the reply is the very reply
  of a failed execution, \<^verbatim>\<open>Execution failed: \<close> followed by the (here empty) standard
  error buffer, and it is the same reply as for a process that exited with status 1 and
  wrote nothing.
\<close>

theorem start_failure_counterexample:
  "runErr r_no_docker = Some (StartError ''executable file not found in $PATH'')
   \<and> response (executeHandler req_echo
         (world (Returns (Inr ws1)) (Returns None) (Returns r_no_docker) None))
       = [TextReply 500 (''Execution failed: '' @ stderr r_no_docker)]
   \<and> response (executeHandler req_echo
         (world (Returns (Inr ws1)) (Returns None) (Returns r_no_docker) None))
       = response (executeHandler req_echo
         (world (Returns (Inr ws1)) (Returns None) (Returns r_silent_exit) None))"
  by (simp add: executeHandler_def withWorkspace_def runSandbox_def classify_def emit_def
      deferred_def response_def req_echo_def world_def r_no_docker_def r_silent_exit_def
      StatusInternalServerError_def)

text \<open>
  Claim C3, as the code has it: whenever \<^verbatim>\<open>Run\<close> returns an error of any kind, start
  error or exit error, and the deadline has not expired, the reply is status 500 with the
  text \<^verbatim>\<open>Execution failed: \<close> followed by the captured standard error, and the error
  and the captured standard error are logged.
\<close>

theorem run_error_reply_echoes_stderr:
  assumes "executed req e p dir r" and "runErr r = Some err"
    and "ctxErr e \<noteq> Some DeadlineExceeded"
  shows "response (executeHandler req e)
       = [TextReply StatusInternalServerError (''Execution failed: '' @ stderr r)]
     \<and> Log (LogExecFailed err (stderr r)) \<in> set (fst (executeHandler req e))"
  using executed_trace [OF assms(1)] classify_failure [OF assms(3) assms(2)]
  by (simp add: response_def)

theorem run_error_reply_echoes_stderr_witness:
  "executed req_echo (world (Returns (Inr ws1)) (Returns None) (Returns r_no_daemon) None)
     p_echo ws1 r_no_daemon
   \<and> runErr r_no_daemon = Some (ExitError 125)
   \<and> ctxErr (world (Returns (Inr ws1)) (Returns None) (Returns r_no_daemon) None)
       \<noteq> Some DeadlineExceeded
   \<and> response (executeHandler req_echo
         (world (Returns (Inr ws1)) (Returns None) (Returns r_no_daemon) None))
       = [TextReply 500 ''Execution failed: docker: Cannot connect to the Docker daemon'']"
proof -
  let ?w = "world (Returns (Inr ws1)) (Returns None) (Returns r_no_daemon) None"
  have h1: "executed req_echo ?w p_echo ws1 r_no_daemon"
    by (simp add: executed_def prepared_def req_echo_def world_def p_echo_def)
  have h2: "runErr r_no_daemon = Some (ExitError 125)"
    by (simp add: r_no_daemon_def)
  have h3: "ctxErr ?w \<noteq> Some DeadlineExceeded"
    by (simp add: world_def)
  have h4: "stderr r_no_daemon = ''docker: Cannot connect to the Docker daemon''"
    by (simp add: r_no_daemon_def)
  from run_error_reply_echoes_stderr [OF h1 h2 h3] h1 h2 h3 h4 show ?thesis
    by (simp add: StatusInternalServerError_def)
qed

subsection \<open>The sandbox command\<close>

text \<open>
  Claim C4. Once the source file is written, the handler builds exactly one command:
  \<^verbatim>\<open>docker run --rm -i --net=none -v <workspace>:/usr/src/app gcc:latest sh -c\<close>
  followed by one script of the form compile step, \<^verbatim>\<open>&&\<close>, run step. The workspace is
  its only volume and the image is fixed. Standard input is attached exactly when the
  request carries a non-empty \<^verbatim>\<open>stdin\<close>; the flag \<^verbatim>\<open>-i\<close> keeps the container's
  standard input open for it.
\<close>

theorem sandbox_command_shape:
  assumes "prepared req e p dir"
  shows "filter isRun (fst (executeHandler req e)) =
     [Run \<lparr>Path = ''docker'',
           Args = [''run'', ''--rm'', ''-i'', ''--net=none'',
                   ''-v'', dir @ '':/usr/src/app'',
                   ''gcc:latest'',
                   ''sh'', ''-c'',
                   ''g++ -Wall /usr/src/app/main.cpp -o /usr/src/app/main.out''
                     @ '' && '' @ ''/usr/src/app/main.out''],
           cmdStdin = (if Stdin p = '''' then None else Some (Stdin p))\<rparr>]"
  using prepared_trace [OF assms]
  by (simp add: runSandbox_effects runCmd_def compileAndRunScript_def)

theorem sandbox_command_shape_witness:
  "prepared req_echo (world (Returns (Inr ws1)) (Returns None) (Returns r_ok) None) p_echo ws1
   \<and> filter isRun (fst (executeHandler req_echo
        (world (Returns (Inr ws1)) (Returns None) (Returns r_ok) None))) =
     [Run \<lparr>Path = ''docker'',
           Args = [''run'', ''--rm'', ''-i'', ''--net=none'',
                   ''-v'', ''/tmp/cpp-execution-1:/usr/src/app'',
                   ''gcc:latest'',
                   ''sh'', ''-c'',
                   ''g++ -Wall /usr/src/app/main.cpp -o /usr/src/app/main.out && /usr/src/app/main.out''],
           cmdStdin = Some ''5''\<rparr>]"
proof -
  let ?w = "world (Returns (Inr ws1)) (Returns None) (Returns r_ok) None"
  have h1: "prepared req_echo ?w p_echo ws1"
    by (simp add: prepared_def req_echo_def world_def p_echo_def)
  from sandbox_command_shape [OF h1] h1 show ?thesis
    by (simp add: p_echo_def ws1_def)
qed

subsection \<open>Failing fast\<close>

text \<open>
  The method guard is the first test of the handler. A request with any method other than
  POST is refused before the body is read, and nothing else happens.
\<close>

lemma other_method_trace:
  "Method req \<noteq> ''POST'' \<Longrightarrow>
   executeHandler req e = ([HttpError ''POST method only'' StatusMethodNotAllowed], Returned)"
  by (simp add: executeHandler_def)

text \<open>
  Claim C5 says that every request with a malformed body is answered 400. The method guard
  comes before the decoder: a request that is not a POST is answered 405 whatever its body,
  so a GET whose body the decoder would reject gets 405 and not the validation error.
\<close>

theorem malformed_body_counterexample:
  "Decode (Body req_get_bad) = Inl ''unexpected EOF''
   \<and> response (executeHandler req_get_bad
         (world (Returns (Inr ws1)) (Returns None) (Returns r_ok) None))
       = [TextReply 405 ''POST method only'']"
  by (simp add: executeHandler_def response_def req_get_bad_def StatusMethodNotAllowed_def)

text \<open>
  Claim C5, as the code has it. A request whose body the decoder rejects makes the handler
  create no workspace and run no command; it is answered 400 when it is a POST and 405
  otherwise. A POST whose body decodes and whose workspace cannot be created, or whose
  source file cannot be written, is answered with an error (status 500) and no command is
  run.
\<close>

theorem decode_and_resource_errors_fail_fast:
  "(Decode (Body req) = Inl err \<longrightarrow>
      filter isMkdirTemp (fst (executeHandler req e)) = []
      \<and> filter isRun (fst (executeHandler req e)) = []
      \<and> response (executeHandler req e)
          = (if Method req = ''POST'' then [TextReply 400 ''Bad Request: Invalid JSON'']
             else [TextReply 405 ''POST method only'']))
   \<and> (Method req = ''POST'' \<and> Decode (Body req) = Inr p
       \<and> mkdirTemp e '''' ''cpp-execution-'' = Returns (Inl err) \<longrightarrow>
      response (executeHandler req e) = [TextReply 500 ''Failed to create temp dir'']
      \<and> filter isRun (fst (executeHandler req e)) = [])
   \<and> (Method req = ''POST'' \<and> Decode (Body req) = Inr p
       \<and> mkdirTemp e '''' ''cpp-execution-'' = Returns (Inr dir)
       \<and> writeFile e (Join dir ''main.cpp'') (Code p) mode_0666 = Returns (Some err) \<longrightarrow>
      response (executeHandler req e) = [TextReply 500 ''Failed to write to temp file'']
      \<and> filter isRun (fst (executeHandler req e)) = [])"
proof (intro conjI impI)
  assume dec: "Decode (Body req) = Inl err"
  have tr: "executeHandler req e =
      (if Method req = ''POST''
       then ([Log (LogInvalidJSON err),
              HttpError ''Bad Request: Invalid JSON'' StatusBadRequest], Returned)
       else ([HttpError ''POST method only'' StatusMethodNotAllowed], Returned))"
    using dec by (simp add: executeHandler_def)
  show "filter isMkdirTemp (fst (executeHandler req e)) = []"
    and "filter isRun (fst (executeHandler req e)) = []"
    by (simp_all add: tr)
  show "response (executeHandler req e)
          = (if Method req = ''POST'' then [TextReply 400 ''Bad Request: Invalid JSON'']
             else [TextReply 405 ''POST method only''])"
    by (simp add: tr response_def StatusBadRequest_def StatusMethodNotAllowed_def)
next
  assume a: "Method req = ''POST'' \<and> Decode (Body req) = Inr p
       \<and> mkdirTemp e '''' ''cpp-execution-'' = Returns (Inl err)"
  then have tr: "executeHandler req e =
     ([MkdirTemp '''' ''cpp-execution-'', Log (LogMkdirFailed err),
       HttpError ''Failed to create temp dir'' StatusInternalServerError], Returned)"
    using no_workspace_trace [of req p e err] by simp
  then show "response (executeHandler req e) = [TextReply 500 ''Failed to create temp dir'']"
    and "filter isRun (fst (executeHandler req e)) = []"
    by (simp_all add: response_def StatusInternalServerError_def)
next
  assume a: "Method req = ''POST'' \<and> Decode (Body req) = Inr p
       \<and> mkdirTemp e '''' ''cpp-execution-'' = Returns (Inr dir)
       \<and> writeFile e (Join dir ''main.cpp'') (Code p) mode_0666 = Returns (Some err)"
  then have tr: "executeHandler req e =
     ([MkdirTemp '''' ''cpp-execution-'', Log (LogDirCreated dir),
       WriteFile (Join dir ''main.cpp'') (Code p) mode_0666,
       Log (LogWriteFailed err),
       HttpError ''Failed to write to temp file'' StatusInternalServerError,
       RemoveAll dir], Returned)"
    by (simp add: executeHandler_def withWorkspace_def emit_def deferred_def)
  then show "response (executeHandler req e) = [TextReply 500 ''Failed to write to temp file'']"
    and "filter isRun (fst (executeHandler req e)) = []"
    by (simp_all add: response_def StatusInternalServerError_def)
qed

theorem decode_and_resource_errors_fail_fast_witness:
  "Decode (Body req_bad) = Inl ''unexpected EOF'' \<and> Method req_bad = ''POST''
   \<and> response (executeHandler req_bad (world (Returns (Inr ws1)) (Returns None) (Returns r_ok) None))
       = [TextReply 400 ''Bad Request: Invalid JSON'']
   \<and> filter isMkdirTemp (fst (executeHandler req_bad
        (world (Returns (Inr ws1)) (Returns None) (Returns r_ok) None))) = []
   \<and> Decode (Body req_get_bad) = Inl ''unexpected EOF'' \<and> Method req_get_bad \<noteq> ''POST''
   \<and> response (executeHandler req_get_bad
        (world (Returns (Inr ws1)) (Returns None) (Returns r_ok) None))
       = [TextReply 405 ''POST method only'']
   \<and> filter isMkdirTemp (fst (executeHandler req_get_bad
        (world (Returns (Inr ws1)) (Returns None) (Returns r_ok) None))) = []
   \<and> Method req_echo = ''POST'' \<and> Decode (Body req_echo) = Inr p_echo
   \<and> response (executeHandler req_echo
        (world (Returns (Inl ''no space left on device'')) (Returns None) (Returns r_ok) None))
       = [TextReply 500 ''Failed to create temp dir'']
   \<and> response (executeHandler req_echo
        (world (Returns (Inr ws1)) (Returns (Some ''disk quota exceeded'')) (Returns r_ok) None))
       = [TextReply 500 ''Failed to write to temp file'']
   \<and> filter isRun (fst (executeHandler req_echo
        (world (Returns (Inr ws1)) (Returns (Some ''disk quota exceeded'')) (Returns r_ok) None))) = []"
proof -
  let ?w = "world (Returns (Inr ws1)) (Returns None) (Returns r_ok) None"
  let ?w2 = "world (Returns (Inl ''no space left on device'')) (Returns None) (Returns r_ok) None"
  let ?w3 = "world (Returns (Inr ws1)) (Returns (Some ''disk quota exceeded'')) (Returns r_ok) None"
  have b1: "Method req_bad = ''POST''" and b2: "Decode (Body req_bad) = Inl ''unexpected EOF''"
    by (simp_all add: req_bad_def)
  have n1: "Method req_get_bad \<noteq> ''POST''"
    and n2: "Decode (Body req_get_bad) = Inl ''unexpected EOF''"
    by (simp_all add: req_get_bad_def)
  have g1: "Method req_echo = ''POST''" and g2: "Decode (Body req_echo) = Inr p_echo"
    by (simp_all add: req_echo_def p_echo_def)
  have m2: "mkdirTemp ?w2 '''' ''cpp-execution-'' = Returns (Inl ''no space left on device'')"
    by (simp add: world_def)
  have m3: "mkdirTemp ?w3 '''' ''cpp-execution-'' = Returns (Inr ws1)"
    and w3: "writeFile ?w3 (Join ws1 ''main.cpp'') (Code p_echo) mode_0666
             = Returns (Some ''disk quota exceeded'')"
    by (simp_all add: world_def)
  note t1 = decode_and_resource_errors_fail_fast
    [of req_bad "''unexpected EOF''" ?w p_echo ws1]
  note t0 = decode_and_resource_errors_fail_fast
    [of req_get_bad "''unexpected EOF''" ?w p_echo ws1]
  note t2 = decode_and_resource_errors_fail_fast
    [of req_echo "''no space left on device''" ?w2 p_echo ws1]
  note t3 = decode_and_resource_errors_fail_fast
    [of req_echo "''disk quota exceeded''" ?w3 p_echo ws1]
  from t1 b2 have "response (executeHandler req_bad ?w)
      = (if Method req_bad = ''POST'' then [TextReply 400 ''Bad Request: Invalid JSON'']
         else [TextReply 405 ''POST method only''])"
    and c1b: "filter isMkdirTemp (fst (executeHandler req_bad ?w)) = []"
    by blast+
  with b1 have c1: "response (executeHandler req_bad ?w) = [TextReply 400 ''Bad Request: Invalid JSON'']"
    by simp
  from t0 n2 have "response (executeHandler req_get_bad ?w)
      = (if Method req_get_bad = ''POST'' then [TextReply 400 ''Bad Request: Invalid JSON'']
         else [TextReply 405 ''POST method only''])"
    and c0b: "filter isMkdirTemp (fst (executeHandler req_get_bad ?w)) = []"
    by blast+
  with n1 have c0: "response (executeHandler req_get_bad ?w) = [TextReply 405 ''POST method only'']"
    by simp
  from t2 g1 g2 m2 have c2: "response (executeHandler req_echo ?w2) = [TextReply 500 ''Failed to create temp dir'']"
    by blast
  from t3 g1 g2 m3 w3 have c3: "response (executeHandler req_echo ?w3) = [TextReply 500 ''Failed to write to temp file'']
     \<and> filter isRun (fst (executeHandler req_echo ?w3)) = []"
    by blast
  from b1 b2 n1 n2 g1 g2 c1 c1b c0 c0b c2 c3 show ?thesis by blast
qed

subsection \<open>The source file and standard input\<close>

text \<open>
  Claim C6 says that \<^verbatim>\<open>main.cpp\<close> is created with restrictive permissions. The mode
  the handler passes to \<^verbatim>\<open>os.WriteFile\<close> is \<^verbatim>\<open>0666\<close> (decimal 438): it grants
  reading and writing to the group and to others as well; in particular the bit that lets
  others write (octal \<^verbatim>\<open>002\<close>) is set.
\<close>

theorem restrictive_mode_counterexample:
  "filter isWriteFile (fst (executeHandler req_echo
       (world (Returns (Inr ws1)) (Returns None) (Returns r_ok) None)))
     = [WriteFile (Join ''/tmp/cpp-execution-1'' ''main.cpp'') ''#include <iostream>'' 438]
   \<and> \<not> restrictive_perm 438
   \<and> (438 :: 32 word) AND 2 = 2"
  by (simp add: executeHandler_def withWorkspace_def runSandbox_def classify_def emit_def
      deferred_def req_echo_def world_def r_ok_def ws1_def echo_src_def mode_0666_def
      restrictive_perm_def)

text \<open>
  Claim C6, as the code has it. Once the workspace exists, the handler makes exactly one
  \<^verbatim>\<open>os.WriteFile\<close> call. Its path is \<^verbatim>\<open>main.cpp\<close> joined to the workspace; its
  data is the string the decoder delivered for the \<^verbatim>\<open>code\<close> member
  (\<^verbatim>\<open>payload.Code\<close>), which the handler passes on unchanged; its permission argument
  is \<^verbatim>\<open>0666\<close>, with the read and write bits of the group and of others set (of the
  bits of octal \<^verbatim>\<open>077\<close> it has octal \<^verbatim>\<open>066\<close>, which is 54), so it is not a
  restrictive one.
\<close>

theorem source_write_call:
  assumes "Method req = ''POST''" and "Decode (Body req) = Inr p"
    and "mkdirTemp e '''' ''cpp-execution-'' = Returns (Inr dir)"
  shows "filter isWriteFile (fst (executeHandler req e))
       = [WriteFile (Join dir ''main.cpp'') (Code p) mode_0666]
     \<and> mode_0666 = 438 \<and> mode_0666 AND 63 = 54 \<and> \<not> restrictive_perm mode_0666"
  using workspace_trace [OF assms]
  by (simp add: withWorkspace_effects) (simp add: mode_0666_def restrictive_perm_def)

theorem source_write_call_witness:
  "Method req_echo = ''POST'' \<and> Decode (Body req_echo) = Inr p_echo
   \<and> mkdirTemp (world (Returns (Inr ws1)) (Returns None) (Returns r_ok) None) '''' ''cpp-execution-''
       = Returns (Inr ws1)
   \<and> filter isWriteFile (fst (executeHandler req_echo
        (world (Returns (Inr ws1)) (Returns None) (Returns r_ok) None)))
       = [WriteFile (Join ws1 ''main.cpp'') echo_src mode_0666]"
proof -
  let ?w = "world (Returns (Inr ws1)) (Returns None) (Returns r_ok) None"
  have h1: "Method req_echo = ''POST''"
    and h2: "Decode (Body req_echo) = Inr p_echo"
    by (simp_all add: req_echo_def p_echo_def)
  have h3: "mkdirTemp ?w '''' ''cpp-execution-'' = Returns (Inr ws1)"
    by (simp add: world_def)
  have h4: "Code p_echo = echo_src"
    by (simp add: p_echo_def)
  from source_write_call [OF h1 h2 h3] h1 h2 h3 h4 show ?thesis
    by simp
qed

text \<open>
  Claim C7. Whatever the request and the world, the handler writes at most one file, and a
  file it writes is \<^verbatim>\<open>main.cpp\<close> with the \<^verbatim>\<open>code\<close> member as its content: the
  \<^verbatim>\<open>stdin\<close> member is never the subject of a write. Every command the handler runs
  has the \<^verbatim>\<open>stdin\<close> member attached as its standard input when that member is not
  empty, and when the handler gets as far as running the command with a non-empty
  \<^verbatim>\<open>stdin\<close>, that command is indeed run with it.
\<close>

theorem stdin_streamed_not_written:
  "(\<forall>ev \<in> set (fst (executeHandler req e)). isWriteFile ev \<longrightarrow>
       (\<exists>dir p. Decode (Body req) = Inr p
          \<and> ev = WriteFile (Join dir ''main.cpp'') (Code p) mode_0666))
   \<and> length (filter isWriteFile (fst (executeHandler req e))) \<le> 1
   \<and> (\<forall>c. Run c \<in> set (fst (executeHandler req e)) \<longrightarrow>
       (\<exists>p. Decode (Body req) = Inr p
          \<and> cmdStdin c = (if Stdin p = '''' then None else Some (Stdin p))))
   \<and> (prepared req e p dir \<and> Stdin p \<noteq> '''' \<longrightarrow>
       (\<exists>c. filter isRun (fst (executeHandler req e)) = [Run c]
          \<and> cmdStdin c = Some (Stdin p)))"
proof (intro conjI)
  have writes: "filter isWriteFile (fst (executeHandler req e)) = [] \<or>
      (\<exists>dir p. Decode (Body req) = Inr p \<and>
         filter isWriteFile (fst (executeHandler req e))
           = [WriteFile (Join dir ''main.cpp'') (Code p) mode_0666])"
  proof (cases "Method req = ''POST''")
    case False
    then show ?thesis by (simp add: executeHandler_def)
  next
    case post: True
    show ?thesis
    proof (cases "Decode (Body req)")
      case (Inl err)
      with post show ?thesis by (simp add: executeHandler_def)
    next
      case (Inr p)
      show ?thesis
      proof (cases "mkdirTemp e '''' ''cpp-execution-''")
        case Panics
        with post Inr show ?thesis by (simp add: executeHandler_def emit_def)
      next
        case (Returns res)
        show ?thesis
        proof (cases res)
          case (Inl err)
          with Returns no_workspace_trace [OF post Inr] show ?thesis by simp
        next
          case (Inr dir)
          with Returns workspace_trace [OF post \<open>Decode (Body req) = Inr p\<close>]
          have "filter isWriteFile (fst (executeHandler req e))
              = [WriteFile (Join dir ''main.cpp'') (Code p) mode_0666]"
            by (simp add: withWorkspace_effects)
          with \<open>Decode (Body req) = Inr p\<close> show ?thesis by blast
        qed
      qed
    qed
  qed
  show "\<forall>ev \<in> set (fst (executeHandler req e)). isWriteFile ev \<longrightarrow>
       (\<exists>dir p. Decode (Body req) = Inr p
          \<and> ev = WriteFile (Join dir ''main.cpp'') (Code p) mode_0666)"
  proof (intro ballI impI)
    fix ev assume "ev \<in> set (fst (executeHandler req e))" and "isWriteFile ev"
    then have mem: "ev \<in> set (filter isWriteFile (fst (executeHandler req e)))"
      by simp
    from writes show "\<exists>dir p. Decode (Body req) = Inr p
          \<and> ev = WriteFile (Join dir ''main.cpp'') (Code p) mode_0666"
    proof
      assume none: "filter isWriteFile (fst (executeHandler req e)) = []"
      from mem show ?thesis unfolding none by simp
    next
      assume "\<exists>dir p. Decode (Body req) = Inr p \<and>
         filter isWriteFile (fst (executeHandler req e))
           = [WriteFile (Join dir ''main.cpp'') (Code p) mode_0666]"
      then obtain dir p where dec: "Decode (Body req) = Inr p"
        and one: "filter isWriteFile (fst (executeHandler req e))
           = [WriteFile (Join dir ''main.cpp'') (Code p) mode_0666]"
        by blast
      from mem have "ev = WriteFile (Join dir ''main.cpp'') (Code p) mode_0666"
        unfolding one by simp
      with dec show ?thesis by blast
    qed
  qed
  from writes show "length (filter isWriteFile (fst (executeHandler req e))) \<le> 1"
    by auto
  show "\<forall>c. Run c \<in> set (fst (executeHandler req e)) \<longrightarrow>
       (\<exists>p. Decode (Body req) = Inr p
          \<and> cmdStdin c = (if Stdin p = '''' then None else Some (Stdin p)))"
  proof (intro allI impI)
    fix c assume "Run c \<in> set (fst (executeHandler req e))"
    from run_event_origin [OF this] obtain p dir
      where "Decode (Body req) = Inr p" and "c = runCmd dir p" by blast
    then show "\<exists>p. Decode (Body req) = Inr p
          \<and> cmdStdin c = (if Stdin p = '''' then None else Some (Stdin p))"
      by (auto simp: runCmd_def)
  qed
  show "prepared req e p dir \<and> Stdin p \<noteq> '''' \<longrightarrow>
       (\<exists>c. filter isRun (fst (executeHandler req e)) = [Run c]
          \<and> cmdStdin c = Some (Stdin p))"
  proof
    assume a: "prepared req e p dir \<and> Stdin p \<noteq> ''''"
    then have "filter isRun (fst (executeHandler req e)) = [Run (runCmd dir p)]"
      using prepared_trace [of req e p dir] by (simp add: runSandbox_effects)
    moreover from a have "cmdStdin (runCmd dir p) = Some (Stdin p)"
      by (simp add: runCmd_def)
    ultimately show "\<exists>c. filter isRun (fst (executeHandler req e)) = [Run c]
          \<and> cmdStdin c = Some (Stdin p)"
      by blast
  qed
qed

theorem stdin_streamed_not_written_witness:
  "WriteFile (Join ws1 ''main.cpp'') echo_src mode_0666
     \<in> set (fst (executeHandler req_echo
          (world (Returns (Inr ws1)) (Returns None) (Returns r_ok) None)))
   \<and> isWriteFile (WriteFile (Join ws1 ''main.cpp'') echo_src mode_0666)
   \<and> (\<exists>dir p. Decode (Body req_echo) = Inr p
        \<and> WriteFile (Join ws1 ''main.cpp'') echo_src mode_0666
            = WriteFile (Join dir ''main.cpp'') (Code p) mode_0666)
   \<and> prepared req_echo (world (Returns (Inr ws1)) (Returns None) (Returns r_ok) None) p_echo ws1
   \<and> Stdin p_echo \<noteq> ''''
   \<and> (\<exists>c. filter isRun (fst (executeHandler req_echo
               (world (Returns (Inr ws1)) (Returns None) (Returns r_ok) None))) = [Run c]
        \<and> cmdStdin c = Some ''5'')"
proof -
  let ?w = "world (Returns (Inr ws1)) (Returns None) (Returns r_ok) None"
  let ?ev = "WriteFile (Join ws1 ''main.cpp'') echo_src mode_0666"
  have h1: "prepared req_echo ?w p_echo ws1"
    by (simp add: prepared_def req_echo_def world_def p_echo_def)
  have h2: "Stdin p_echo \<noteq> ''''" and h3: "Stdin p_echo = ''5''"
    by (simp_all add: p_echo_def)
  have h4: "?ev \<in> set (fst (executeHandler req_echo ?w))"
    using prepared_trace [OF h1] by (simp add: p_echo_def)
  have h5: "isWriteFile ?ev"
    by simp
  note t = stdin_streamed_not_written [of req_echo ?w p_echo ws1]
  from t h4 h5 have c1: "\<exists>dir p. Decode (Body req_echo) = Inr p
        \<and> ?ev = WriteFile (Join dir ''main.cpp'') (Code p) mode_0666"
    by blast
  from t h1 h2 have "\<exists>c. filter isRun (fst (executeHandler req_echo ?w)) = [Run c]
        \<and> cmdStdin c = Some (Stdin p_echo)"
    by blast
  then have c2: "\<exists>c. filter isRun (fst (executeHandler req_echo ?w)) = [Run c]
        \<and> cmdStdin c = Some ''5''"
    unfolding h3 .
  from h1 h2 h4 h5 c1 c2 show ?thesis by blast
qed

text \<open>
  Claim C9. A body whose \<^verbatim>\<open>stdin\<close> member is the empty string and a body without
  that member make the handler do exactly the same, action for action, in every world; and
  every command run for such a request has no standard input attached.
\<close>

theorem empty_stdin_same_as_absent:
  "executeHandler \<lparr>Method = m, Body = Object c (Some '''')\<rparr> e
     = executeHandler \<lparr>Method = m, Body = Object c None\<rparr> e
   \<and> (\<forall>cm. Run cm \<in> set (fst (executeHandler \<lparr>Method = m, Body = Object c None\<rparr> e))
         \<longrightarrow> cmdStdin cm = None)"
proof
  show "executeHandler \<lparr>Method = m, Body = Object c (Some '''')\<rparr> e
     = executeHandler \<lparr>Method = m, Body = Object c None\<rparr> e"
    by (simp add: executeHandler_def)
  show "\<forall>cm. Run cm \<in> set (fst (executeHandler \<lparr>Method = m, Body = Object c None\<rparr> e))
         \<longrightarrow> cmdStdin cm = None"
  proof (intro allI impI)
    fix cm
    assume "Run cm \<in> set (fst (executeHandler \<lparr>Method = m, Body = Object c None\<rparr> e))"
    from run_event_origin [OF this] obtain p dir
      where "Decode (Body \<lparr>Method = m, Body = Object c None\<rparr>) = Inr p"
        and "cm = runCmd dir p"
      by blast
    then show "cmdStdin cm = None"
      by (auto simp: runCmd_def)
  qed
qed

theorem empty_stdin_same_as_absent_witness:
  "Run (runCmd ws1 \<lparr>Code = echo_src, Stdin = ''''\<rparr>)
     \<in> set (fst (executeHandler \<lparr>Method = ''POST'', Body = Object (Some echo_src) None\<rparr>
          (world (Returns (Inr ws1)) (Returns None) (Returns r_ok) None)))
   \<and> cmdStdin (runCmd ws1 \<lparr>Code = echo_src, Stdin = ''''\<rparr>) = None
   \<and> executeHandler \<lparr>Method = ''POST'', Body = Object (Some echo_src) (Some '''')\<rparr>
        (world (Returns (Inr ws1)) (Returns None) (Returns r_ok) None)
     = executeHandler \<lparr>Method = ''POST'', Body = Object (Some echo_src) None\<rparr>
        (world (Returns (Inr ws1)) (Returns None) (Returns r_ok) None)"
proof -
  let ?w = "world (Returns (Inr ws1)) (Returns None) (Returns r_ok) None"
  let ?req = "\<lparr>Method = ''POST'', Body = Object (Some echo_src) None\<rparr>"
  let ?p = "\<lparr>Code = echo_src, Stdin = ''''\<rparr>"
  have "prepared ?req ?w ?p ws1"
    by (simp add: prepared_def world_def)
  from prepared_trace [OF this]
  have h: "Run (runCmd ws1 ?p) \<in> set (fst (executeHandler ?req ?w))"
    by (simp add: runSandbox_def emit_def)
  note t = empty_stdin_same_as_absent [of "''POST''" "Some echo_src" ?w]
  from t h have "cmdStdin (runCmd ws1 ?p) = None"
    by blast
  with t h show ?thesis by blast
qed

subsection \<open>The life of the workspace\<close>

text \<open>
  Claim C2 says that every request that passes JSON validation has exactly one workspace
  directory created and its removal invoked exactly once. When \<^verbatim>\<open>os.MkdirTemp\<close>
  returns an error the handler returns before the \<^verbatim>\<open>defer\<close>: such a request passes
  JSON validation, no directory exists for it and \<^verbatim>\<open>os.RemoveAll\<close> is never called.
\<close>

theorem one_workspace_per_request_counterexample:
  "Method req_echo = ''POST'' \<and> Decode (Body req_echo) = Inr p_echo
   \<and> mkdirTemp (world (Returns (Inl ''no space left on device'')) (Returns None) (Returns r_ok) None)
        '''' ''cpp-execution-'' = Returns (Inl ''no space left on device'')
   \<and> executeHandler req_echo
        (world (Returns (Inl ''no space left on device'')) (Returns None) (Returns r_ok) None)
     = ([MkdirTemp '''' ''cpp-execution-'',
         Log (LogMkdirFailed ''no space left on device''),
         HttpError ''Failed to create temp dir'' 500], Returned)
   \<and> filter isRemoveAll (fst (executeHandler req_echo
        (world (Returns (Inl ''no space left on device'')) (Returns None) (Returns r_ok) None)))
     = []"
  by (simp add: executeHandler_def emit_def req_echo_def p_echo_def world_def
      StatusInternalServerError_def)

text \<open>
  Claim C2, as the code has it. A request that passes JSON validation makes exactly one
  \<^verbatim>\<open>MkdirTemp\<close> call. When that call returns a directory, its removal is the last
  action of the handler and the only removal, on every path that follows: a failed write,
  a timeout, a failed execution (engine failures included), success, and a panic in any of
  the later calls (the world \<open>e\<close> is arbitrary, so \<^verbatim>\<open>WriteFile\<close> and \<^verbatim>\<open>Run\<close>
  may panic). The directory the handler writes to, mounts and removes is the one its own
  \<^verbatim>\<open>MkdirTemp\<close> call returned. When \<^verbatim>\<open>MkdirTemp\<close> returns no directory, nothing is
  removed.
\<close>

theorem workspace_removed_exactly_once:
  assumes "Method req = ''POST''" and "Decode (Body req) = Inr p"
  shows "filter isMkdirTemp (fst (executeHandler req e)) = [MkdirTemp '''' ''cpp-execution-'']
     \<and> (mkdirTemp e '''' ''cpp-execution-'' = Returns (Inr dir) \<longrightarrow>
          filter isRemoveAll (fst (executeHandler req e)) = [RemoveAll dir]
          \<and> last (fst (executeHandler req e)) = RemoveAll dir
          \<and> (\<forall>f d m. WriteFile f d m \<in> set (fst (executeHandler req e))
                \<longrightarrow> f = Join dir ''main.cpp'')
          \<and> (\<forall>c. Run c \<in> set (fst (executeHandler req e)) \<longrightarrow> c = runCmd dir p))
     \<and> ((\<forall>d. mkdirTemp e '''' ''cpp-execution-'' \<noteq> Returns (Inr d)) \<longrightarrow>
          filter isRemoveAll (fst (executeHandler req e)) = [])"
proof (intro conjI impI)
  show "filter isMkdirTemp (fst (executeHandler req e)) = [MkdirTemp '''' ''cpp-execution-'']"
    using assms
    by (simp add: executeHandler_def emit_def deferred_def withWorkspace_effects
        split: call.splits sum.splits)
next
  assume mk: "mkdirTemp e '''' ''cpp-execution-'' = Returns (Inr dir)"
  note tr = workspace_trace [OF assms mk]
  show "filter isRemoveAll (fst (executeHandler req e)) = [RemoveAll dir]"
    by (simp add: tr withWorkspace_effects)
  show "last (fst (executeHandler req e)) = RemoveAll dir"
    by (simp add: tr)
  show "\<forall>f d m. WriteFile f d m \<in> set (fst (executeHandler req e))
                \<longrightarrow> f = Join dir ''main.cpp''"
  proof (intro allI impI)
    fix f d m assume "WriteFile f d m \<in> set (fst (executeHandler req e))"
    then have "WriteFile f d m \<in> set (filter isWriteFile (fst (executeHandler req e)))"
      by simp
    then show "f = Join dir ''main.cpp''"
      by (simp add: tr withWorkspace_effects)
  qed
  show "\<forall>c. Run c \<in> set (fst (executeHandler req e)) \<longrightarrow> c = runCmd dir p"
  proof (intro allI impI)
    fix c assume "Run c \<in> set (fst (executeHandler req e))"
    then have "Run c \<in> set (filter isRun (fst (executeHandler req e)))"
      by simp
    then show "c = runCmd dir p"
      by (simp add: tr withWorkspace_runs split: if_splits)
  qed
next
  assume "\<forall>d. mkdirTemp e '''' ''cpp-execution-'' \<noteq> Returns (Inr d)"
  with assms show "filter isRemoveAll (fst (executeHandler req e)) = []"
    by (simp add: executeHandler_def emit_def split: call.splits sum.splits)
qed

theorem workspace_removed_exactly_once_witness:
  "Method req_echo = ''POST'' \<and> Decode (Body req_echo) = Inr p_echo
   \<and> mkdirTemp (world (Returns (Inr ws1)) (Returns None) Panics None) '''' ''cpp-execution-''
       = Returns (Inr ws1)
   \<and> snd (executeHandler req_echo (world (Returns (Inr ws1)) (Returns None) Panics None))
       = Panicked
   \<and> filter isRemoveAll
        (fst (executeHandler req_echo (world (Returns (Inr ws1)) (Returns None) Panics None)))
       = [RemoveAll ws1]
   \<and> last (fst (executeHandler req_echo (world (Returns (Inr ws1)) (Returns None) Panics None)))
       = RemoveAll ws1
   \<and> Run (runCmd ws1 p_echo)
       \<in> set (fst (executeHandler req_echo (world (Returns (Inr ws1)) (Returns None) Panics None)))
   \<and> (\<forall>d. mkdirTemp (world Panics (Returns None) (Returns r_ok) None) '''' ''cpp-execution-''
          \<noteq> Returns (Inr d))
   \<and> filter isRemoveAll
        (fst (executeHandler req_echo (world Panics (Returns None) (Returns r_ok) None)))
       = []"
proof -
  let ?w = "world (Returns (Inr ws1)) (Returns None) Panics None"
  let ?w2 = "world Panics (Returns None) (Returns r_ok) None"
  have h1: "Method req_echo = ''POST''" and h2: "Decode (Body req_echo) = Inr p_echo"
    by (simp_all add: req_echo_def p_echo_def)
  have h3: "mkdirTemp ?w '''' ''cpp-execution-'' = Returns (Inr ws1)"
    by (simp add: world_def)
  have h4: "\<forall>d. mkdirTemp ?w2 '''' ''cpp-execution-'' \<noteq> Returns (Inr d)"
    by (simp add: world_def)
  have "prepared req_echo ?w p_echo ws1"
    by (simp add: prepared_def h1 h2 h3) (simp add: world_def)
  from prepared_trace [OF this]
  have h5: "snd (executeHandler req_echo ?w) = Panicked"
    and h6: "Run (runCmd ws1 p_echo) \<in> set (fst (executeHandler req_echo ?w))"
    by (simp_all add: runSandbox_def emit_def world_def)
  note t = workspace_removed_exactly_once [OF h1 h2, of ?w ws1]
  note t2 = workspace_removed_exactly_once [OF h1 h2, of ?w2 ws1]
  from t h3 have c1: "filter isRemoveAll (fst (executeHandler req_echo ?w)) = [RemoveAll ws1]"
    and c2: "last (fst (executeHandler req_echo ?w)) = RemoveAll ws1"
    by blast+
  from t2 h4 have c3: "filter isRemoveAll (fst (executeHandler req_echo ?w2)) = []"
    by blast
  from h1 h2 h3 h4 h5 h6 c1 c2 c3 show ?thesis by blast
qed

end
